theory Spec2Isabelle
  imports Complex_Main "HOL-Library.Monad_Syntax"
begin

section \<open>Diffusive Gibbs kernel (blackjax/mcmc/diffusive_gibbs.py)\<close>

text \<open>
  The arithmetic of the source is modelled over the real numbers. An array is the list
  of its entries (a one-dimensional array, or the entries of a higher-dimensional one in
  storage order); a Python or JAX exception is the value \<open>None\<close>.

  The fields \<open>noise_contraction\<close> and \<open>noise_sigma\<close> of a state are Python floats: the
  division of one by the other raises \<open>ZeroDivisionError\<close> on a zero divisor
  (\<open>py_div\<close>). The division of an array by a zero float does not raise, it gives an
  infinity or NaN; HOL gives 0 there, so what is proved of a returned value is proved for
  non-zero \<open>noise_contraction\<close> and \<open>noise_sigma\<close>. Floating-point rounding is outside the
  model; the overflow of \<open>jnp.exp\<close> to \<open>+inf\<close> is in it (\<open>fpval\<close>).
\<close>

subsection \<open>Floats\<close>

text \<open>\<open>a / b\<close> on two Python floats.\<close>

definition py_div :: "real \<Rightarrow> real \<Rightarrow> real option" where
  "py_div a b = (if b = 0 then None else Some (a / b))"

text \<open>
  The value of a floating-point expression that may overflow: a finite number or \<open>+inf\<close>.
\<close>

datatype fpval = Finite real | PosInf

text \<open>
  \<open>jnp.exp\<close> in a floating-point type whose largest finite value is \<open>fmax\<close>: the
  exponential where it is at most \<open>fmax\<close>, and \<open>+inf\<close> beyond.
\<close>

definition jnp_exp :: "real \<Rightarrow> real \<Rightarrow> fpval" where
  "jnp_exp fmax x = (if exp x \<le> fmax then Finite (exp x) else PosInf)"

text \<open>The largest finite value of \<open>float32\<close>, the default type of JAX.\<close>

definition float32_max :: real where
  "float32_max = (2 - 1 / 2 ^ 23) * 2 ^ 127"

text \<open>\<open>jnp.maximum\<close> and \<open>jnp.minimum\<close> of a value and a finite bound.\<close>

fun jnp_maximum :: "fpval \<Rightarrow> real \<Rightarrow> fpval" where
  "jnp_maximum (Finite x) lo = Finite (max x lo)"
| "jnp_maximum PosInf lo = PosInf"

fun jnp_minimum :: "fpval \<Rightarrow> real \<Rightarrow> fpval" where
  "jnp_minimum (Finite x) hi = Finite (min x hi)"
| "jnp_minimum PosInf hi = Finite hi"

text \<open>\<open>jnp.clip(x, lo, hi)\<close>: the minimum of \<open>hi\<close> and the maximum of \<open>x\<close> and \<open>lo\<close>.\<close>

definition clip :: "fpval \<Rightarrow> real \<Rightarrow> real \<Rightarrow> fpval" where
  "clip x lo hi = jnp_minimum (jnp_maximum x lo) hi"

subsection \<open>Nested structures of arrays\<close>

type_synonym array = "real list"

text \<open>
  A nested structure (\<open>ArrayTree\<close>): a leaf, or a container of sub-structures. The kind
  of a container (list, tuple, the keys of a dict) is part of its structure.
\<close>

datatype node_kind = ListNode | TupleNode | DictNode "string list"

datatype 'a tree = Leaf 'a | Node node_kind "'a tree list"

type_synonym array_tree = "array tree"

fun tree_leaves :: "'a tree \<Rightarrow> 'a list" where
  "tree_leaves (Leaf x) = [x]"
| "tree_leaves (Node k ts) = concat (map tree_leaves ts)"

text \<open>\<open>jax.tree.map(f, t)\<close> with one structure: \<open>f\<close> on every leaf.\<close>

definition tree_map :: "('a \<Rightarrow> 'b) \<Rightarrow> 'a tree \<Rightarrow> 'b tree" where
  "tree_map f t = map_tree f t"

text \<open>
  \<open>jax.tree.map(f, t, u)\<close> with two structures: \<open>u\<close> is flattened up to the structure
  of \<open>t\<close>, which raises when a container of \<open>t\<close> meets anything but a container of the
  same kind and arity. Where a leaf of \<open>t\<close> meets a container of \<open>u\<close>, \<open>f\<close> receives
  the container; every \<open>f\<close> of this file is array arithmetic, which raises on it. \<open>f\<close>
  itself may raise (arrays that do not broadcast).
\<close>

fun tree_map2 :: "('a \<Rightarrow> 'b \<Rightarrow> 'c option) \<Rightarrow> 'a tree \<Rightarrow> 'b tree \<Rightarrow> 'c tree option"
  and tree_map2_list ::
    "('a \<Rightarrow> 'b \<Rightarrow> 'c option) \<Rightarrow> 'a tree list \<Rightarrow> 'b tree list \<Rightarrow> 'c tree list option"
where
  "tree_map2 f (Leaf x) (Leaf y) = map_option Leaf (f x y)"
| "tree_map2 f (Node k ts) (Node k' us) =
     (if k = k' then map_option (Node k) (tree_map2_list f ts us) else None)"
| "tree_map2 f (Leaf x) (Node k' us) = None"
| "tree_map2 f (Node k ts) (Leaf y) = None"
| "tree_map2_list f [] [] = Some []"
| "tree_map2_list f (t # ts) (u # us) =
     (case tree_map2 f t u of
        None \<Rightarrow> None
      | Some v \<Rightarrow> map_option ((#) v) (tree_map2_list f ts us))"
| "tree_map2_list f [] (u # us) = None"
| "tree_map2_list f (t # ts) [] = None"

text \<open>
  \<open>jax.tree_util.tree_reduce(f, t)\<close> without an initial value: \<open>functools.reduce\<close> over
  the leaves, which raises on a structure with no leaf.
\<close>

definition tree_reduce :: "('a \<Rightarrow> 'a \<Rightarrow> 'a) \<Rightarrow> 'a tree \<Rightarrow> 'a option" where
  "tree_reduce f t =
     (case tree_leaves t of [] \<Rightarrow> None | x # xs \<Rightarrow> Some (foldl f x xs))"

text \<open>
  An element-wise binary operation on two arrays, with NumPy's broadcasting for
  one-dimensional arrays: equal lengths pair up, a one-entry array is stretched, any
  other pair of lengths raises.
\<close>

definition broadcast2 :: "(real \<Rightarrow> real \<Rightarrow> real) \<Rightarrow> array \<Rightarrow> array \<Rightarrow> array option" where
  "broadcast2 f x y =
     (if length x = length y then Some (map2 f x y)
      else if length x = 1 then Some (map (f (hd x)) y)
      else if length y = 1 then Some (map (\<lambda>a. f a (hd y)) x)
      else None)"

text \<open>Two structures of the same shape: the same containers, and leaves of equal length.\<close>

fun same_shape :: "array_tree \<Rightarrow> array_tree \<Rightarrow> bool"
  and same_shape_list :: "array_tree list \<Rightarrow> array_tree list \<Rightarrow> bool"
where
  "same_shape (Leaf x) (Leaf y) = (length x = length y)"
| "same_shape (Node k ts) (Node k' us) = (k = k' \<and> same_shape_list ts us)"
| "same_shape (Leaf x) (Node k' us) = False"
| "same_shape (Node k ts) (Leaf y) = False"
| "same_shape_list [] [] = True"
| "same_shape_list (t # ts) (u # us) = (same_shape t u \<and> same_shape_list ts us)"
| "same_shape_list [] (u # us) = False"
| "same_shape_list (t # ts) [] = False"

text \<open>\<open>jnp.linalg.norm\<close> of an array: the Euclidean (Frobenius) norm of its entries.\<close>

definition linalg_norm :: "array \<Rightarrow> real" where
  "linalg_norm x = sqrt (\<Sum>v\<leftarrow>x. v\<^sup>2)"

subsection \<open>The state\<close>

record gibbs_state =
  position :: array_tree
  logdensity :: real
  logdensity_grad :: array_tree
  noise_contraction :: real
  noise_sigma :: real
  count :: int

subsection \<open>The Gaussian term of \<open>init_denoising\<close>\<close>

text \<open>
  The local function \<open>gaussian_term\<close> of \<open>init_denoising\<close> (lines 110-115): on every
  pair of leaves \<open>-(norm(x - y) / (2 * scale**2))\<close>, then the sum of the leaves' terms.
\<close>

definition gaussian_term :: "array_tree \<Rightarrow> array_tree \<Rightarrow> real \<Rightarrow> real option" where
  "gaussian_term a b scale = do {
     gauss_terms \<leftarrow> tree_map2
        (\<lambda>x y. map_option (\<lambda>d. - (linalg_norm d / (2 * scale\<^sup>2))) (broadcast2 (-) x y)) a b;
     tree_reduce (+) gauss_terms
   }"

text \<open>
  The Gaussian term as the specification words it: the sum over the leaves of
  \<open>-\<parallel>a - b\<parallel>\<^sup>2 / (2 scale\<^sup>2)\<close>, for two structures of the same shape.
\<close>

definition sq_dist :: "array \<Rightarrow> array \<Rightarrow> real" where
  "sq_dist x y = (\<Sum>(u, v)\<leftarrow>zip x y. (u - v)\<^sup>2)"

definition gaussian_term_spec :: "array_tree \<Rightarrow> array_tree \<Rightarrow> real \<Rightarrow> real" where
  "gaussian_term_spec a b scale =
     (\<Sum>(x, y)\<leftarrow>zip (tree_leaves a) (tree_leaves b). - (sq_dist x y / (2 * scale\<^sup>2)))"

subsection \<open>External collaborators\<close>

text \<open>
  The inner sampler (\<open>SamplingAlgorithm\<close>): \<open>init(position, rng_key)\<close> and
  \<open>step(rng_key, state)\<close>, which returns the new state and an info. Both run the
  density they were built over, so both may raise.
\<close>

record ('k, 's, 'i) sampling_algorithm =
  sa_init :: "array_tree \<Rightarrow> 'k \<Rightarrow> 's option"
  sa_step :: "'k \<Rightarrow> 's \<Rightarrow> ('s \<times> 'i) option"

text \<open>
  What the file calls and does not define, taken as parameters: \<open>'k\<close> is the type of
  a pseudo-random key, \<open>'s\<close> the inner sampler's state, \<open>'i\<close> its info.
  \<^item> \<open>generate_gaussian_noise rng_key position mu sigma\<close> is \<open>blackjax.util.generate_gaussian_noise\<close>;
  \<^item> \<open>bernoulli rng_key p\<close> is \<open>jax.random.bernoulli\<close>;
  \<^item> \<open>split rng_key n\<close> is \<open>jax.random.split\<close>;
  \<^item> \<open>value_and_grad f\<close> is \<open>jax.value_and_grad(f)\<close>;
  \<^item> \<open>mala f step_size\<close> is \<open>blackjax.mala(f, step_size)\<close>;
  \<^item> \<open>state_position s\<close> is the field \<open>s.position\<close> of an inner state;
  \<^item> \<open>float_max\<close> is the largest finite value of the floating-point type in use.
\<close>

record ('k, 's, 'i) externals =
  generate_gaussian_noise :: "'k \<Rightarrow> array_tree \<Rightarrow> real \<Rightarrow> real \<Rightarrow> array_tree"
  bernoulli :: "'k \<Rightarrow> fpval \<Rightarrow> bool"
  split :: "'k \<Rightarrow> nat \<Rightarrow> 'k list"
  value_and_grad :: "(array_tree \<Rightarrow> real) \<Rightarrow> array_tree \<Rightarrow> real \<times> array_tree"
  mala :: "(array_tree \<Rightarrow> real option) \<Rightarrow> real \<Rightarrow> ('k, 's, 'i) sampling_algorithm"
  state_position :: "'s \<Rightarrow> array_tree"
  float_max :: real

subsection \<open>\<open>noiser\<close> and \<open>noiser_logpdf\<close>\<close>

text \<open>Lines 50-52: \<open>noise_contraction * x + n\<close> on every pair of leaves.\<close>

definition noiser :: "('k, 's, 'i) externals \<Rightarrow> 'k \<Rightarrow> gibbs_state \<Rightarrow> array_tree option" where
  "noiser P rng_key state =
     (let noise = generate_gaussian_noise P rng_key (position state) 0 (noise_sigma state)
      in tree_map2 (\<lambda>x n. broadcast2 (+) (map (\<lambda>v. noise_contraction state * v) x) n)
           (position state) noise)"

text \<open>
  \<open>jax.scipy.stats.norm.logpdf(x, loc, scale)\<close> on one entry: the log-density at \<open>x\<close>
  of the normal distribution with mean \<open>loc\<close> and standard deviation \<open>scale\<close>.
\<close>

definition norm_logpdf :: "real \<Rightarrow> real \<Rightarrow> real \<Rightarrow> real" where
  "norm_logpdf x loc scale = - (ln (2 * pi * scale\<^sup>2) + (x - loc)\<^sup>2 / scale\<^sup>2) / 2"

text \<open>
  Lines 74-75. The mean is \<open>jax.tree.map(jnp.multiply, sample_clean, noise_contraction)\<close>,
  whose second structure is the float itself, a leaf. \<open>logpdf\<close> takes arrays, not
  containers; its third argument is \<open>noise_sigma**2\<close>.
\<close>

definition noiser_logpdf :: "gibbs_state \<Rightarrow> array_tree \<Rightarrow> array_tree \<Rightarrow> real option" where
  "noiser_logpdf state sample_noised sample_clean = do {
     mean \<leftarrow> tree_map2 (\<lambda>x c. Some (map (\<lambda>v. v * c) x)) sample_clean
        (Leaf (noise_contraction state));
     case (sample_noised, mean) of
       (Leaf x, Leaf m) \<Rightarrow>
         map_option sum_list
           (broadcast2 (\<lambda>a b. norm_logpdf a b ((noise_sigma state)\<^sup>2)) x m)
     | _ \<Rightarrow> None
   }"

text \<open>
  The same quantity as the specification words it: the log-density of the noised sample
  under the normal distribution with mean \<open>\<alpha> \<cdot> clean\<close> and variance \<open>\<sigma>\<^sup>2\<close>, summed over
  the entries of all leaves.
\<close>

definition normal_logdensity :: "real \<Rightarrow> real \<Rightarrow> real \<Rightarrow> real" where
  "normal_logdensity x mean variance =
     - ln (2 * pi * variance) / 2 - (x - mean)\<^sup>2 / (2 * variance)"

definition noiser_logpdf_spec :: "real \<Rightarrow> real \<Rightarrow> array_tree \<Rightarrow> array_tree \<Rightarrow> real" where
  "noiser_logpdf_spec \<alpha> \<sigma> sample_noised sample_clean =
     (\<Sum>(x, c)\<leftarrow>zip (tree_leaves sample_noised) (tree_leaves sample_clean).
        \<Sum>(a, b)\<leftarrow>zip x c. normal_logdensity a (\<alpha> * b) (\<sigma>\<^sup>2))"

subsection \<open>\<open>init_denoising\<close>\<close>

text \<open>
  Lines 103-108: the proposal \<open>x / noise_contraction + n\<close>, with noise of scale
  \<open>noise_sigma / noise_contraction\<close>, a division of two floats.
\<close>

definition proposal_position ::
  "('k, 's, 'i) externals \<Rightarrow> 'k \<Rightarrow> array_tree \<Rightarrow> gibbs_state \<Rightarrow> array_tree option" where
  "proposal_position P rng_key noised_position state = do {
     scale \<leftarrow> py_div (noise_sigma state) (noise_contraction state);
     let noise = generate_gaussian_noise P rng_key noised_position 0 scale;
     tree_map2 (\<lambda>x n. broadcast2 (+) (map (\<lambda>v. v / noise_contraction state) x) n)
       noised_position noise
   }"

text \<open>
  Lines 117-133: the logarithm of the acceptance ratio of a proposal. The scale
  \<open>noise_sigma / noise_contraction\<close> is computed at lines 119 and 123.
\<close>

definition log_accept ::
  "array_tree \<Rightarrow> gibbs_state \<Rightarrow> (array_tree \<Rightarrow> real) \<Rightarrow> array_tree \<Rightarrow> real option" where
  "log_accept noised_position state logdensity_fn proposal = do {
     let scaled_noised = tree_map (map (\<lambda>v. v / noise_contraction state)) noised_position;
     scale1 \<leftarrow> py_div (noise_sigma state) (noise_contraction state);
     g1 \<leftarrow> gaussian_term (position state) scaled_noised scale1;
     scale2 \<leftarrow> py_div (noise_sigma state) (noise_contraction state);
     g2 \<leftarrow> gaussian_term proposal scaled_noised scale2;
     let proposal_logratio = g1 - g2;
     let scaled_proposal = tree_map (map (\<lambda>v. v * noise_contraction state)) proposal;
     let scaled_position = tree_map (map (\<lambda>v. v * noise_contraction state)) (position state);
     g3 \<leftarrow> gaussian_term scaled_proposal noised_position (noise_sigma state);
     g4 \<leftarrow> gaussian_term scaled_position noised_position (noise_sigma state);
     let noising_logratio = g3 - g4;
     let diff_logdensity = logdensity_fn proposal - logdensity_fn (position state);
     Some (diff_logdensity + proposal_logratio + noising_logratio)
   }"

text \<open>Line 136: \<open>jnp.clip(jnp.exp(log_accept), 0.0, 1.0)\<close>.\<close>

definition prob_accept :: "real \<Rightarrow> real \<Rightarrow> fpval" where
  "prob_accept fmax la = clip (jnp_exp fmax la) 0 1"

text \<open>\<open>jnp.where(c, x, y)\<close> with one boolean \<open>c\<close> for all entries.\<close>

definition where_select :: "bool \<Rightarrow> array \<Rightarrow> array \<Rightarrow> array option" where
  "where_select c x y = broadcast2 (\<lambda>u v. if c then u else v) x y"

text \<open>Lines 102-142.\<close>

definition init_denoising ::
  "('k, 's, 'i) externals \<Rightarrow> 'k \<Rightarrow> array_tree \<Rightarrow> gibbs_state \<Rightarrow> (array_tree \<Rightarrow> real)
     \<Rightarrow> array_tree option" where
  "init_denoising P rng_key noised_position state logdensity_fn = do {
     proposal \<leftarrow> proposal_position P rng_key noised_position state;
     la \<leftarrow> log_accept noised_position state logdensity_fn proposal;
     let do_accept = bernoulli P rng_key (prob_accept (float_max P) la);
     tree_map2 (where_select do_accept) proposal (position state)
   }"

subsection \<open>\<open>denoise\<close>\<close>

text \<open>\<open>jax.lax.scan\<close> of a step that may raise, keeping the carried state only.\<close>

fun scan :: "('s \<Rightarrow> 'k \<Rightarrow> 's option) \<Rightarrow> 's \<Rightarrow> 'k list \<Rightarrow> 's option" where
  "scan f s [] = Some s"
| "scan f s (k # ks) = (case f s k of None \<Rightarrow> None | Some s' \<Rightarrow> scan f s' ks)"

text \<open>Lines 166-175.\<close>

definition denoise ::
  "('k, 's, 'i) externals \<Rightarrow> 'k \<Rightarrow> array_tree \<Rightarrow> ('k, 's, 'i) sampling_algorithm \<Rightarrow> nat
     \<Rightarrow> array_tree option" where
  "denoise P rng_key pos denoiser n_steps = do {
     init_state \<leftarrow> sa_init denoiser pos rng_key;
     let keys = split P rng_key n_steps;
     state_denoised \<leftarrow> scan (\<lambda>s k. map_option fst (sa_step denoiser k s)) init_state keys;
     Some (state_position P state_denoised)
   }"

subsection \<open>The kernel\<close>

text \<open>Lines 222-229: the target log-density tethered to the noised position.\<close>

definition conditional_logprob ::
  "(array_tree \<Rightarrow> real) \<Rightarrow> real \<Rightarrow> real \<Rightarrow> array_tree \<Rightarrow> array_tree \<Rightarrow> real option" where
  "conditional_logprob logdensity_fn \<alpha> \<sigma> noised_position x = do {
     let scaled_position = tree_map (map (\<lambda>v. v * \<alpha>)) x;
     norm_tree \<leftarrow> tree_map2
        (\<lambda>x y. map_option (\<lambda>d. (\<Sum>v\<leftarrow>d. v\<^sup>2) / (2 * \<sigma>\<^sup>2)) (broadcast2 (-) x y))
        scaled_position noised_position;
     r \<leftarrow> tree_reduce (+) norm_tree;
     Some (logdensity_fn x - r)
   }"

text \<open>
  Lines 214-239. Unpacking \<open>jax.random.split(rng_key, 3)\<close> into three names raises
  unless there are three keys.
\<close>

definition kernel ::
  "('k, 's, 'i) externals \<Rightarrow> 'k \<Rightarrow> gibbs_state \<Rightarrow> (array_tree \<Rightarrow> real) \<Rightarrow> nat
     \<Rightarrow> (int \<Rightarrow> real \<times> real) \<Rightarrow> gibbs_state option" where
  "kernel P rng_key state logdensity_fn n_steps schedule =
     (case value_and_grad P logdensity_fn (position state) of (ld, ld_grad) \<Rightarrow>
      (case split P rng_key 3 of
         [key_noiser, key_init, key_denoiser] \<Rightarrow> do {
           noised_position \<leftarrow> noiser P key_noiser state;
           pos \<leftarrow> init_denoising P key_init noised_position state logdensity_fn;
           denoised \<leftarrow> denoise P key_denoiser pos
              (mala P (conditional_logprob logdensity_fn (noise_contraction state)
                         (noise_sigma state) noised_position) (1 / 100))
              n_steps;
           let count' = count state + 1;
           Some (case schedule count' of (contraction', sigma') \<Rightarrow>
             \<lparr>position = denoised, logdensity = ld, logdensity_grad = ld_grad,
              noise_contraction = contraction', noise_sigma = sigma', count = count'\<rparr>)
         }
       | _ \<Rightarrow> None))"

subsection \<open>\<open>as_top_level_api\<close>: \<open>init\<close> and \<open>step\<close>\<close>

text \<open>Lines 268-276.\<close>

definition init ::
  "('k, 's, 'i) externals \<Rightarrow> (array_tree \<Rightarrow> real) \<Rightarrow> (int \<Rightarrow> real \<times> real) \<Rightarrow> array_tree
     \<Rightarrow> 'k option \<Rightarrow> gibbs_state" where
  "init P logdensity_fn schedule pos rng_key =
     (case value_and_grad P logdensity_fn pos of (ld, ld_grad) \<Rightarrow>
      case schedule 0 of (contraction, sigma) \<Rightarrow>
        \<lparr>position = pos, logdensity = ld, logdensity_grad = ld_grad,
         noise_contraction = contraction, noise_sigma = sigma, count = 0\<rparr>)"

text \<open>
  The Python values a caller of \<open>step\<close> can receive. A \<open>NamedTuple\<close> is a tuple: a
  \<open>GibbsState\<close> is the tuple of its six fields.
\<close>

datatype pyval = PyNone | PyFloat real | PyInt int | PyTree array_tree | PyTuple "pyval list"

definition gibbs_tuple :: "gibbs_state \<Rightarrow> pyval" where
  "gibbs_tuple s =
     PyTuple [PyTree (position s), PyFloat (logdensity s), PyTree (logdensity_grad s),
              PyFloat (noise_contraction s), PyFloat (noise_sigma s), PyInt (count s)]"

text \<open>Lines 278-279: \<open>step\<close> returns what \<open>kernel\<close> returns.\<close>

definition step ::
  "('k, 's, 'i) externals \<Rightarrow> (array_tree \<Rightarrow> real) \<Rightarrow> nat \<Rightarrow> (int \<Rightarrow> real \<times> real) \<Rightarrow> 'k
     \<Rightarrow> gibbs_state \<Rightarrow> pyval option" where
  "step P logdensity_fn n_steps schedule rng_key state =
     map_option gibbs_tuple (kernel P rng_key state logdensity_fn n_steps schedule)"

subsection \<open>Which key goes to which random operation\<close>

text \<open>
  The calls that take a pseudo-random key, in program order, each with the key it is
  given: \<open>generate_gaussian_noise\<close> (lines 51 and 103), \<open>jax.random.bernoulli\<close>
  (line 138), the inner sampler's \<open>init\<close> (line 166) and \<open>step\<close> (line 169), and
  \<open>jax.random.split\<close> (lines 172 and 218).
\<close>

datatype random_op = Gaussian_noise | Bernoulli | Sampler_init | Sampler_step | Split

definition noiser_key_uses :: "'k \<Rightarrow> (random_op \<times> 'k) list" where
  "noiser_key_uses rng_key = [(Gaussian_noise, rng_key)]"

definition init_denoising_key_uses :: "'k \<Rightarrow> (random_op \<times> 'k) list" where
  "init_denoising_key_uses rng_key = [(Gaussian_noise, rng_key), (Bernoulli, rng_key)]"

definition denoise_key_uses ::
  "('k, 's, 'i) externals \<Rightarrow> 'k \<Rightarrow> nat \<Rightarrow> (random_op \<times> 'k) list" where
  "denoise_key_uses P rng_key n_steps =
     [(Sampler_init, rng_key), (Split, rng_key)]
       @ map (\<lambda>k. (Sampler_step, k)) (split P rng_key n_steps)"

definition kernel_key_uses ::
  "('k, 's, 'i) externals \<Rightarrow> 'k \<Rightarrow> nat \<Rightarrow> (random_op \<times> 'k) list" where
  "kernel_key_uses P rng_key n_steps =
     (Split, rng_key) #
       (case split P rng_key 3 of
          [key_noiser, key_init, key_denoiser] \<Rightarrow>
            noiser_key_uses key_noiser @ init_denoising_key_uses key_init
              @ denoise_key_uses P key_denoiser n_steps
        | _ \<Rightarrow> [])"

subsection \<open>A concrete run\<close>

text \<open>
  Deterministic stand-ins for the collaborators, to run the kernel on a concrete input:
  keys are natural numbers, every standard normal draw is 1, the Bernoulli draw accepts
  exactly when the probability is 1, the inner sampler moves every entry by its step
  size, the gradient is that of \<open>ex_logdensity\<close>, the standard normal log-density
  without its constant, and the floats are \<open>float32\<close>.
\<close>

definition ex_mala ::
  "(array_tree \<Rightarrow> real option) \<Rightarrow> real \<Rightarrow> (nat, array_tree, unit) sampling_algorithm" where
  "ex_mala f step_size =
     \<lparr>sa_init = (\<lambda>pos k. Some pos),
      sa_step = (\<lambda>k s. Some (tree_map (map (\<lambda>v. v + step_size)) s, ()))\<rparr>"

definition ex_externals :: "(nat, array_tree, unit) externals" where
  "ex_externals =
     \<lparr>generate_gaussian_noise = (\<lambda>k ref mu sigma. tree_map (map (\<lambda>_. mu + sigma * 1)) ref),
      bernoulli = (\<lambda>k p. p = Finite 1),
      split = (\<lambda>k n. map (\<lambda>i. 10 * k + i) [0..<n]),
      value_and_grad = (\<lambda>f x. (f x, tree_map (map uminus) x)),
      mala = ex_mala,
      state_position = (\<lambda>s. s),
      float_max = float32_max\<rparr>"

definition ex_logdensity :: "array_tree \<Rightarrow> real" where
  "ex_logdensity t = - (\<Sum>x\<leftarrow>tree_leaves t. \<Sum>v\<leftarrow>x. v\<^sup>2) / 2"

text \<open>A second target, increasing in every entry, under which the proposal is accepted.\<close>

definition ex_logdensity_up :: "array_tree \<Rightarrow> real" where
  "ex_logdensity_up t = (\<Sum>x\<leftarrow>tree_leaves t. sum_list x)"

definition ex_schedule :: "int \<Rightarrow> real \<times> real" where
  "ex_schedule n = (1 / 2, 1 / (of_int n + 1))"

definition ex_position :: array_tree where
  "ex_position = Node ListNode [Leaf [0], Leaf [0, 0]]"

definition ex_state :: gibbs_state where
  "ex_state = init ex_externals ex_logdensity ex_schedule ex_position None"

section \<open>Properties\<close>

subsection \<open>Nested structures\<close>

lemma map2_select:
  "length x = length y \<Longrightarrow> map2 (\<lambda>u v. if c then u else v) x y = (if c then x else y)"
  by (induction x y rule: list_induct2) auto

lemma where_select_same_length:
  "length x = length y \<Longrightarrow> where_select c x y = Some (if c then x else y)"
  by (simp add: where_select_def broadcast2_def map2_select)

lemma tree_map2_where_select:
  "same_shape a b \<Longrightarrow> tree_map2 (where_select c) a b = Some (if c then a else b)"
  "same_shape_list as bs \<Longrightarrow> tree_map2_list (where_select c) as bs = Some (if c then as else bs)"
  by (induction a b and as bs rule: same_shape_same_shape_list.induct)
     (auto simp: where_select_same_length)

lemma same_shape_list_all:
  "(\<And>t. t \<in> set ts \<Longrightarrow> same_shape (h t) t) \<Longrightarrow> same_shape_list (map h ts) ts"
  by (induction ts) auto

lemma same_shape_tree_map: "same_shape (tree_map (map g) a) a"
  unfolding tree_map_def
  by (induction a) (auto intro: same_shape_list_all)

lemma same_shape_sym:
  "same_shape a b \<Longrightarrow> same_shape b a"
  "same_shape_list as bs \<Longrightarrow> same_shape_list bs as"
  by (induction a b and as bs rule: same_shape_same_shape_list.induct) auto

lemma same_shape_trans:
  "same_shape a b \<Longrightarrow> same_shape b c \<Longrightarrow> same_shape a c"
  "same_shape_list as bs \<Longrightarrow> same_shape_list bs cs \<Longrightarrow> same_shape_list as cs"
proof (induction a b and as bs arbitrary: c and cs rule: same_shape_same_shape_list.induct)
  case (1 x y)
  then show ?case by (cases c) auto
next
  case (2 k ts k' us)
  then show ?case by (cases c) auto
next
  case (6 t ts u us)
  then show ?case by (cases cs) auto
qed auto

lemma same_shape_leaves:
  "same_shape a b \<Longrightarrow> length (tree_leaves a) = length (tree_leaves b)"
  "same_shape_list as bs \<Longrightarrow>
     length (concat (map tree_leaves as)) = length (concat (map tree_leaves bs))"
  by (induction a b and as bs rule: same_shape_same_shape_list.induct) auto

text \<open>On two structures of the same shape the element-wise map does not raise.\<close>

lemma tree_map2_defined:
  fixes f :: "array \<Rightarrow> array \<Rightarrow> 'c option"
  assumes f: "\<And>x y. length x = length y \<Longrightarrow> f x y \<noteq> None"
  shows "same_shape a b \<Longrightarrow>
           \<exists>r. tree_map2 f a b = Some r \<and> length (tree_leaves r) = length (tree_leaves a)"
    and "same_shape_list as bs \<Longrightarrow>
           \<exists>rs. tree_map2_list f as bs = Some rs
              \<and> length (concat (map tree_leaves rs)) = length (concat (map tree_leaves as))"
proof (induction a b and as bs rule: same_shape_same_shape_list.induct)
  case (1 x y)
  then show ?case using f[of x y] by auto
qed auto

lemma tree_map2_shape:
  fixes f :: "array \<Rightarrow> array \<Rightarrow> array option"
  assumes f: "\<And>x y. length x = length y \<Longrightarrow> \<exists>z. f x y = Some z \<and> length z = length x"
  shows "same_shape a b \<Longrightarrow> \<exists>r. tree_map2 f a b = Some r \<and> same_shape r a"
    and "same_shape_list as bs \<Longrightarrow>
           \<exists>rs. tree_map2_list f as bs = Some rs \<and> same_shape_list rs as"
proof (induction a b and as bs rule: same_shape_same_shape_list.induct)
  case (1 x y)
  then show ?case using f[of x y] by auto
qed auto

text \<open>The leaves of the result, when the function on the leaves is total on equal lengths.\<close>

lemma tree_map2_leaves:
  fixes f :: "array \<Rightarrow> array \<Rightarrow> 'c option"
  assumes f: "\<And>x y. length x = length y \<Longrightarrow> f x y = Some (h x y)"
  shows "same_shape a b \<Longrightarrow>
           \<exists>r. tree_map2 f a b = Some r
              \<and> tree_leaves r = map2 h (tree_leaves a) (tree_leaves b)"
    and "same_shape_list as bs \<Longrightarrow>
           \<exists>rs. tree_map2_list f as bs = Some rs
              \<and> concat (map tree_leaves rs)
                  = map2 h (concat (map tree_leaves as)) (concat (map tree_leaves bs))"
proof (induction a b and as bs rule: same_shape_same_shape_list.induct)
  case (1 x y)
  then show ?case using f[of x y] by auto
next
  case (6 t ts u us)
  then show ?case
    using same_shape_leaves(1)[of t u] by auto
qed auto

lemma foldl_add_sum_list: "foldl (+) (x :: real) xs = x + sum_list xs"
  by (induction xs arbitrary: x) auto

subsection \<open>The Gaussian term\<close>

lemma linalg_norm_diff:
  "length x = length y \<Longrightarrow> linalg_norm (map2 (-) x y) = sqrt (sq_dist x y)"
  unfolding linalg_norm_def sq_dist_def
  by (induction x y rule: list_induct2) auto

text \<open>What the code computes on one pair of leaves: the norm, not its square.\<close>

lemma gaussian_term_leaf:
  "length x = length y \<Longrightarrow>
     gaussian_term (Leaf x) (Leaf y) scale = Some (- (sqrt (sq_dist x y) / (2 * scale\<^sup>2)))"
  by (simp add: gaussian_term_def broadcast2_def tree_reduce_def linalg_norm_diff)

text \<open>What the code computes on two structures of the same shape.\<close>

lemma gaussian_term_same_shape:
  assumes "same_shape a b" and "tree_leaves a \<noteq> []"
  shows "gaussian_term a b scale =
           Some (\<Sum>(x, y)\<leftarrow>zip (tree_leaves a) (tree_leaves b).
                   - (sqrt (sq_dist x y) / (2 * scale\<^sup>2)))"
proof -
  let ?f = "\<lambda>x y. map_option (\<lambda>d. - (linalg_norm d / (2 * scale\<^sup>2))) (broadcast2 (-) x y)"
  let ?h = "\<lambda>x y. - (sqrt (sq_dist x y) / (2 * scale\<^sup>2))"
  have "\<And>x y. length x = length y \<Longrightarrow> ?f x y = Some (?h x y)"
    by (simp add: broadcast2_def linalg_norm_diff)
  from tree_map2_leaves(1)[of ?f ?h, OF this assms(1)]
  obtain r where r: "tree_map2 ?f a b = Some r"
      "tree_leaves r = map2 ?h (tree_leaves a) (tree_leaves b)"
    by blast
  have "tree_leaves b \<noteq> []"
    using same_shape_leaves(1)[OF assms(1)] assms(2) by auto
  with assms(2) r(2) obtain v vs where vs: "tree_leaves r = v # vs"
    by (cases "tree_leaves a"; cases "tree_leaves b") auto
  have "gaussian_term a b scale = Some (sum_list (tree_leaves r))"
    by (simp add: gaussian_term_def r(1) tree_reduce_def vs foldl_add_sum_list)
  then show ?thesis
    by (simp add: r(2))
qed

lemma gaussian_term_defined:
  assumes "same_shape a b" and "tree_leaves a \<noteq> []"
  shows "\<exists>g. gaussian_term a b scale = Some g"
proof -
  let ?f = "\<lambda>x y. map_option (\<lambda>d. - (linalg_norm d / (2 * scale\<^sup>2))) (broadcast2 (-) x y)"
  have "\<And>x y. length x = length y \<Longrightarrow> ?f x y \<noteq> None"
    by (simp add: broadcast2_def)
  from tree_map2_defined(1)[of ?f, OF this assms(1)]
  obtain r where r: "tree_map2 ?f a b = Some r" "length (tree_leaves r) = length (tree_leaves a)"
    by blast
  with assms(2) have "tree_leaves r \<noteq> []" by auto
  then show ?thesis
    by (auto simp: gaussian_term_def r tree_reduce_def split: list.splits)
qed

text \<open>
  C1. The claim: for structures of the same shape and a positive scale, the Gaussian term
  of \<open>init_denoising\<close> is the sum over the leaves of \<open>-\<parallel>a - b\<parallel>\<^sup>2 / (2 scale\<^sup>2)\<close>, the
  norm squared before the division. The code divides the norm itself: for the one-entry
  arrays \<open>[3]\<close> and \<open>[0]\<close> and scale 1 it returns \<open>-3/2\<close>, where the squared norm gives
  \<open>-9/2\<close>.
\<close>

theorem gaussian_term_norm_not_squared:
  "gaussian_term (Leaf [3]) (Leaf [0]) 1 = Some (- (3 / 2))
   \<and> gaussian_term_spec (Leaf [3]) (Leaf [0]) 1 = - (9 / 2)"
  by (simp add: gaussian_term_leaf gaussian_term_spec_def sq_dist_def)

subsection \<open>\<open>noiser_logpdf\<close>\<close>

lemma norm_logpdf_normal_logdensity:
  "norm_logpdf a (b * \<alpha>) s = normal_logdensity a (\<alpha> * b) (s\<^sup>2)"
  by (simp add: norm_logpdf_def normal_logdensity_def add_divide_distrib mult.commute)

lemma sum_list_map2_map:
  "length x = length c \<Longrightarrow>
     sum_list (map2 f x (map g c)) = (\<Sum>(a, b)\<leftarrow>zip x c. f a (g b))"
  by (induction x c rule: list_induct2) auto

text \<open>
  What the code computes on two arrays of one length: the normal log-density whose
  standard deviation is \<open>\<sigma>\<^sup>2\<close>, that is, whose variance is \<open>\<sigma>\<^sup>4\<close>.
\<close>

lemma noiser_logpdf_leaf:
  "length x = length c \<Longrightarrow>
     noiser_logpdf state (Leaf x) (Leaf c)
       = Some (noiser_logpdf_spec (noise_contraction state) ((noise_sigma state)\<^sup>2)
                 (Leaf x) (Leaf c))"
  by (simp add: noiser_logpdf_def broadcast2_def noiser_logpdf_spec_def sum_list_map2_map
        norm_logpdf_normal_logdensity)

text \<open>
  C2. The claim: \<open>noiser_logpdf\<close> is the log-density of the noised sample under the
  normal distribution with mean \<open>\<alpha> \<cdot> clean\<close> and variance \<open>\<sigma>\<^sup>2\<close>, summed over the leaves.
  The code passes \<open>\<sigma>\<^sup>2\<close> where \<open>logpdf\<close> takes the standard deviation: for \<open>\<alpha> = 1\<close>,
  \<open>\<sigma> = 2\<close> and both samples the array \<open>[1]\<close> it returns \<open>- ln (32 \<pi>) / 2\<close>, where the
  density of variance \<open>\<sigma>\<^sup>2 = 4\<close> is \<open>- ln (8 \<pi>) / 2\<close>.
\<close>

theorem noiser_logpdf_scale_is_sigma_squared:
  "noiser_logpdf
     \<lparr>position = Leaf [1], logdensity = 0, logdensity_grad = Leaf [0],
      noise_contraction = 1, noise_sigma = 2, count = 0\<rparr> (Leaf [1]) (Leaf [1])
     = Some (- ln (32 * pi) / 2)
   \<and> noiser_logpdf_spec 1 2 (Leaf [1]) (Leaf [1]) = - ln (8 * pi) / 2
   \<and> - ln (32 * pi) / 2 \<noteq> - ln (8 * pi) / 2"
  by (simp add: noiser_logpdf_leaf noiser_logpdf_spec_def normal_logdensity_def)

lemma noiser_logpdf_only_on_array:
  "noiser_logpdf state sample_noised sample_clean = Some v \<Longrightarrow> \<exists>c. sample_clean = Leaf c"
  by (cases sample_clean) (simp_all add: noiser_logpdf_def)

text \<open>
  C10. \<open>noiser_logpdf\<close> maps \<open>jnp.multiply\<close> over the clean sample and the float
  \<open>noise_contraction\<close>, a single leaf: on every clean sample with more than one leaf the
  structures do not match and the call raises instead of returning a value.
\<close>

theorem noiser_logpdf_raises_on_several_leaves:
  "1 < length (tree_leaves sample_clean) \<Longrightarrow>
     noiser_logpdf state sample_noised sample_clean = None"
  by (cases sample_clean) (simp_all add: noiser_logpdf_def)

theorem noiser_logpdf_raises_on_several_leaves_witness:
  "1 < length (tree_leaves (Node TupleNode [Leaf [1], Leaf [2 :: real]]))
   \<and> noiser_logpdf ex_state (Node TupleNode [Leaf [1], Leaf [2]])
         (Node TupleNode [Leaf [1], Leaf [2]]) = None"
  using noiser_logpdf_raises_on_several_leaves
          [of "Node TupleNode [Leaf [1], Leaf [2]]" ex_state "Node TupleNode [Leaf [1], Leaf [2]]"]
  by simp

subsection \<open>The acceptance probability\<close>

lemma float32_max_ge_1: "1 \<le> float32_max"
  by (simp add: float32_max_def)

text \<open>With a largest float of at least 1, the probability is 1 exactly from \<open>log_accept = 0\<close> on.\<close>

lemma prob_accept_eq_1:
  assumes "1 \<le> fmax"
  shows "(prob_accept fmax la = Finite 1) = (0 \<le> la)"
proof (cases "0 \<le> la")
  case True
  then have "1 \<le> exp la" by simp
  then show ?thesis
    using True by (simp add: prob_accept_def clip_def jnp_exp_def)
next
  case False
  then have lt: "exp la < 1" by simp
  with assms have "exp la \<le> fmax" by linarith
  then show ?thesis
    using False lt by (simp add: prob_accept_def clip_def jnp_exp_def)
qed

lemma clip_unit_interval: "\<exists>p. clip v 0 1 = Finite p \<and> 0 \<le> p \<and> p \<le> 1"
  by (cases v) (simp_all add: clip_def)

text \<open>In \<open>float32\<close> the exponential of 200 overflows.\<close>

lemma exp_200_overflows: "float32_max < exp 200"
proof -
  have "(2 :: real) \<le> exp 1"
    using exp_ge_add_one_self[of 1] by simp
  then have "(2 :: real) ^ 200 \<le> exp 1 ^ 200"
    by (intro power_mono) simp_all
  also have "exp (1 :: real) ^ 200 = exp 200"
    using exp_of_nat_mult[of 200 "1 :: real"] by simp
  finally have "(2 :: real) ^ 200 \<le> exp 200" .
  moreover have "float32_max < 2 ^ 200"
    by (simp add: float32_max_def)
  ultimately show ?thesis by linarith
qed

text \<open>
  C8. The probability given to the Bernoulli draw of \<open>init_denoising\<close> is
  \<open>clip (exp log_accept) 0 1\<close>, where the exponential overflows to \<open>+inf\<close> beyond the
  largest float: whatever the largest float, it is a finite number in \<open>[0, 1]\<close> for every
  \<open>log_accept\<close>, and exactly 1 for \<open>log_accept = 50\<close>. The clamp brings every value,
  \<open>+inf\<close> included, into \<open>[0, 1]\<close>; in \<open>float32\<close> the exponential of 200 does overflow,
  and the probability is 1.
\<close>

theorem prob_accept_clamped:
  "(\<exists>p. prob_accept fmax la = Finite p \<and> 0 \<le> p \<and> p \<le> 1)
   \<and> prob_accept fmax 50 = Finite 1
   \<and> (\<forall>v. \<exists>p. clip v 0 1 = Finite p \<and> 0 \<le> p \<and> p \<le> 1)
   \<and> clip PosInf 0 1 = Finite 1
   \<and> jnp_exp float32_max 200 = PosInf
   \<and> prob_accept float32_max 200 = Finite 1"
proof -
  have "prob_accept fmax 50 = Finite 1"
    by (simp add: prob_accept_def clip_def jnp_exp_def)
  moreover have "jnp_exp float32_max 200 = PosInf"
    using exp_200_overflows by (simp add: jnp_exp_def)
  moreover from this have "prob_accept float32_max 200 = Finite 1"
    by (simp add: prob_accept_def clip_def)
  moreover have "clip PosInf 0 1 = Finite 1"
    by (simp add: clip_def)
  ultimately show ?thesis
    using clip_unit_interval by (simp add: prob_accept_def)
qed

subsection \<open>\<open>init_denoising\<close>\<close>

lemma proposal_position_defined:
  assumes "same_shape (generate_gaussian_noise P rng_key noised_position 0
              (noise_sigma state / noise_contraction state)) noised_position"
    and nz: "noise_contraction state \<noteq> 0"
  shows "\<exists>proposal. proposal_position P rng_key noised_position state = Some proposal
           \<and> same_shape proposal noised_position"
proof -
  let ?f = "\<lambda>x n. broadcast2 (+) (map (\<lambda>v. v / noise_contraction state) x) n"
  have "\<And>x y. length x = length y \<Longrightarrow> \<exists>z. ?f x y = Some z \<and> length z = length x"
    by (simp add: broadcast2_def)
  from tree_map2_shape(1)[of ?f, OF this same_shape_sym(1)[OF assms(1)]]
  show ?thesis by (simp add: proposal_position_def py_div_def nz)
qed

lemma log_accept_defined:
  assumes "same_shape proposal noised_position"
    and "same_shape noised_position (position state)"
    and "tree_leaves (position state) \<noteq> []"
    and nz: "noise_contraction state \<noteq> 0"
  shows "\<exists>la. log_accept noised_position state logdensity_fn proposal = Some la"
proof -
  have pn: "same_shape (position state) noised_position"
    using assms(2) by (rule same_shape_sym(1))
  have pl: "tree_leaves proposal \<noteq> []"
    using same_shape_leaves(1)[OF assms(1)] same_shape_leaves(1)[OF assms(2)] assms(3) by auto
  have sn: "same_shape noised_position (tree_map (map g) noised_position)"
    for g :: "real \<Rightarrow> real"
    by (rule same_shape_sym(1)) (rule same_shape_tree_map)
  have tl: "tree_leaves (tree_map (map g) t) \<noteq> []" if "tree_leaves t \<noteq> []"
    for g :: "real \<Rightarrow> real" and t
    using same_shape_leaves(1)[OF same_shape_tree_map[of g t]] that by auto
  obtain g1 where g1: "gaussian_term (position state)
      (tree_map (map (\<lambda>v. v / noise_contraction state)) noised_position)
      (noise_sigma state / noise_contraction state) = Some g1"
    using gaussian_term_defined[OF same_shape_trans(1)[OF pn sn] assms(3)] by blast
  obtain g2 where g2: "gaussian_term proposal
      (tree_map (map (\<lambda>v. v / noise_contraction state)) noised_position)
      (noise_sigma state / noise_contraction state) = Some g2"
    using gaussian_term_defined[OF same_shape_trans(1)[OF assms(1) sn] pl] by blast
  obtain g3 where g3: "gaussian_term (tree_map (map (\<lambda>v. v * noise_contraction state)) proposal)
      noised_position (noise_sigma state) = Some g3"
    using gaussian_term_defined[OF same_shape_trans(1)[OF same_shape_tree_map assms(1)] tl[OF pl]]
    by blast
  obtain g4 where g4: "gaussian_term
      (tree_map (map (\<lambda>v. v * noise_contraction state)) (position state))
      noised_position (noise_sigma state) = Some g4"
    using gaussian_term_defined[OF same_shape_trans(1)[OF same_shape_tree_map pn] tl[OF assms(3)]]
    by blast
  show ?thesis
    by (simp add: log_accept_def py_div_def nz g1 g2 g3 g4)
qed

lemma init_denoising_defined:
  assumes "same_shape (generate_gaussian_noise P rng_key noised_position 0
              (noise_sigma state / noise_contraction state)) noised_position"
    and "same_shape noised_position (position state)"
    and "tree_leaves (position state) \<noteq> []"
    and "noise_contraction state \<noteq> 0"
  shows "\<exists>pos. init_denoising P rng_key noised_position state logdensity_fn = Some pos"
proof -
  obtain proposal where p: "proposal_position P rng_key noised_position state = Some proposal"
      and ps: "same_shape proposal noised_position"
    using proposal_position_defined[OF assms(1,4)] by blast
  obtain la where la: "log_accept noised_position state logdensity_fn proposal = Some la"
    using log_accept_defined[OF ps assms(2,3,4)] by blast
  have "same_shape proposal (position state)"
    using ps assms(2) by (rule same_shape_trans(1))
  then show ?thesis
    by (simp add: init_denoising_def p la tree_map2_where_select(1))
qed

subsection \<open>The concrete run\<close>

lemma upt_0_2: "[0..<2] = [0, Suc 0]"
  by (simp add: upt_rec)

lemma upt_0_3: "[0..<3] = [0, 1, 2]"
  by code_simp

lemma ex_state_eq:
  "ex_state = \<lparr>position = ex_position, logdensity = 0, logdensity_grad = ex_position,
     noise_contraction = 1 / 2, noise_sigma = 1, count = 0\<rparr>"
  by (simp add: ex_state_def init_def ex_externals_def ex_logdensity_def ex_schedule_def
        ex_position_def tree_map_def)

lemma ex_state_fields:
  "position ex_state = ex_position" "noise_contraction ex_state = 1 / 2"
  "noise_sigma ex_state = 1" "count ex_state = 0"
  by (simp_all add: ex_state_eq)

lemma ex_split: "split ex_externals 7 3 = [70, 71, 72]"
  by (simp add: ex_externals_def upt_0_3)

lemma noiser_ex:
  "noiser ex_externals k ex_state = Some (Node ListNode [Leaf [1], Leaf [1, 1]])"
  by (simp add: noiser_def ex_state_eq ex_externals_def ex_position_def tree_map_def
        broadcast2_def)

lemma proposal_ex:
  "proposal_position ex_externals k (Node ListNode [Leaf [1], Leaf [1, 1]]) ex_state
     = Some (Node ListNode [Leaf [4], Leaf [4, 4]])"
  by (simp add: proposal_position_def py_div_def ex_state_eq ex_externals_def ex_position_def
        tree_map_def broadcast2_def)

lemma log_accept_ex:
  "log_accept (Node ListNode [Leaf [1], Leaf [1, 1]]) ex_state ex_logdensity
     (Node ListNode [Leaf [4], Leaf [4, 4]]) = Some (- 24)"
  by (simp add: log_accept_def py_div_def gaussian_term_def ex_state_eq ex_logdensity_def
        ex_position_def tree_map_def broadcast2_def tree_reduce_def linalg_norm_def)

lemma init_denoising_ex:
  "init_denoising ex_externals k (Node ListNode [Leaf [1], Leaf [1, 1]]) ex_state ex_logdensity
     = Some ex_position"
  apply (simp add: init_denoising_def proposal_ex log_accept_ex)
  apply (simp add: ex_externals_def prob_accept_eq_1 float32_max_ge_1 where_select_def
           broadcast2_def ex_state_eq ex_position_def)
  done

lemma log_accept_ex_up:
  "log_accept (Node ListNode [Leaf [1], Leaf [1, 1]]) ex_state ex_logdensity_up
     (Node ListNode [Leaf [4], Leaf [4, 4]]) = Some 12"
  by (simp add: log_accept_def py_div_def gaussian_term_def ex_state_eq ex_logdensity_up_def
        ex_position_def tree_map_def broadcast2_def tree_reduce_def linalg_norm_def)

text \<open>Under the increasing target the same proposal is accepted and returned.\<close>

lemma init_denoising_ex_up:
  "init_denoising ex_externals k (Node ListNode [Leaf [1], Leaf [1, 1]]) ex_state ex_logdensity_up
     = Some (Node ListNode [Leaf [4], Leaf [4, 4]])"
  apply (simp add: init_denoising_def proposal_ex log_accept_ex_up)
  apply (simp add: ex_externals_def prob_accept_eq_1 float32_max_ge_1 where_select_def
           broadcast2_def ex_state_eq ex_position_def)
  done

lemma denoise_ex:
  "denoise ex_externals k ex_position (mala ex_externals f (1 / 100)) 2
     = Some (Node ListNode [Leaf [1 / 50], Leaf [1 / 50, 1 / 50]])"
  by (simp add: denoise_def ex_externals_def ex_mala_def ex_position_def tree_map_def upt_0_2)

lemma kernel_ex:
  "kernel ex_externals 7 ex_state ex_logdensity 2 ex_schedule =
     Some \<lparr>position = Node ListNode [Leaf [1 / 50], Leaf [1 / 50, 1 / 50]], logdensity = 0,
           logdensity_grad = ex_position, noise_contraction = 1 / 2, noise_sigma = 1 / 2,
           count = 1\<rparr>"
proof -
  have vg: "value_and_grad ex_externals ex_logdensity (position ex_state) = (0, ex_position)"
    by (simp add: ex_externals_def ex_state_eq ex_logdensity_def ex_position_def tree_map_def)
  show ?thesis
    by (simp add: kernel_def ex_split vg noiser_ex init_denoising_ex denoise_ex)
       (simp add: ex_state_eq ex_schedule_def)
qed



text \<open>
  At \<open>noise_contraction = 0\<close> the division of line 104 raises, and \<open>init_denoising\<close>
  returns nothing.
\<close>

lemma init_denoising_raises_at_zero_contraction:
  "noise_contraction state = 0 \<Longrightarrow>
     init_denoising P rng_key noised_position state logdensity_fn = None"
  by (simp add: init_denoising_def proposal_position_def py_div_def)

subsection \<open>The kernel\<close>

text \<open>
  On well-formed input the kernel returns a state: \<open>noise_contraction\<close> is not zero, the
  key splits in three, the noise has the shape of its reference, the position has a leaf,
  and the inner sampler does not raise.
\<close>

lemma scan_defined:
  "(\<And>s k. f s k \<noteq> None) \<Longrightarrow> \<exists>s'. scan f s ks = Some s'"
  by (induction ks arbitrary: s) (auto split: option.splits)

lemma noiser_defined:
  assumes "same_shape (generate_gaussian_noise P rng_key (position state) 0 (noise_sigma state))
             (position state)"
  shows "\<exists>noised. noiser P rng_key state = Some noised \<and> same_shape noised (position state)"
proof -
  let ?f = "\<lambda>x n. broadcast2 (+) (map (\<lambda>v. noise_contraction state * v) x) n"
  have "\<And>x y. length x = length y \<Longrightarrow> \<exists>z. ?f x y = Some z \<and> length z = length x"
    by (simp add: broadcast2_def)
  from tree_map2_shape(1)[of ?f, OF this same_shape_sym(1)[OF assms]]
  show ?thesis by (simp add: noiser_def)
qed

lemma denoise_defined:
  assumes "\<And>pos k. sa_init denoiser pos k \<noteq> None"
    and "\<And>k s. sa_step denoiser k s \<noteq> None"
  shows "\<exists>denoised. denoise P rng_key pos denoiser n_steps = Some denoised"
proof -
  obtain s0 where s0: "sa_init denoiser pos rng_key = Some s0"
    using assms(1)[of pos rng_key] by auto
  have "\<And>s k. map_option fst (sa_step denoiser k s) \<noteq> None"
    using assms(2) by simp
  from scan_defined[of "\<lambda>s k. map_option fst (sa_step denoiser k s)", OF this]
  obtain s' where "scan (\<lambda>s k. map_option fst (sa_step denoiser k s)) s0
                     (split P rng_key n_steps) = Some s'"
    by blast
  then show ?thesis
    by (simp add: denoise_def s0)
qed

lemma kernel_defined:
  assumes "length (split P rng_key 3) = 3"
    and "\<And>k ref mu sigma. same_shape (generate_gaussian_noise P k ref mu sigma) ref"
    and "tree_leaves (position state) \<noteq> []"
    and "\<And>f eps pos k. sa_init (mala P f eps) pos k \<noteq> None"
    and "\<And>f eps k s. sa_step (mala P f eps) k s \<noteq> None"
    and "noise_contraction state \<noteq> 0"
  shows "\<exists>state'. kernel P rng_key state logdensity_fn n_steps schedule = Some state'"
proof -
  obtain k1 k2 k3 where sp: "split P rng_key 3 = [k1, k2, k3]"
    using assms(1) by (auto simp: length_Suc_conv eval_nat_numeral)
  obtain noised where n: "noiser P k1 state = Some noised"
      and ns: "same_shape noised (position state)"
    using noiser_defined[OF assms(2)] by blast
  obtain pos where p: "init_denoising P k2 noised state logdensity_fn = Some pos"
    using init_denoising_defined[OF assms(2) ns assms(3) assms(6)] by blast
  obtain denoised where d: "denoise P k3 pos
      (mala P (conditional_logprob logdensity_fn (noise_contraction state)
                 (noise_sigma state) noised) (1 / 100)) n_steps = Some denoised"
    using denoise_defined[OF assms(4) assms(5)] by blast
  show ?thesis
    by (simp add: kernel_def sp n p d Let_def split: prod.splits)
qed

text \<open>
  C5. The \<open>logdensity\<close> and \<open>logdensity_grad\<close> of the state a kernel invocation emits
  are the value and the gradient of the target log-density at the position of the input
  state, not at the returned position.
\<close>

theorem kernel_logdensity_is_pre_transition:
  assumes "kernel P rng_key state logdensity_fn n_steps schedule = Some state'"
  shows "(logdensity state', logdensity_grad state')
           = value_and_grad P logdensity_fn (position state)"
  using assms
  by (auto simp: kernel_def Let_def split: prod.splits list.splits bind_splits)

text \<open>
  In the concrete run the emitted log-density is 0, the value at the input position, and
  the target log-density at the returned position is \<open>-3/5000\<close>.
\<close>

theorem kernel_logdensity_is_pre_transition_witness:
  "kernel ex_externals 7 ex_state ex_logdensity 2 ex_schedule =
     Some \<lparr>position = Node ListNode [Leaf [1 / 50], Leaf [1 / 50, 1 / 50]], logdensity = 0,
           logdensity_grad = Node ListNode [Leaf [0], Leaf [0, 0]],
           noise_contraction = 1 / 2, noise_sigma = 1 / 2, count = 1\<rparr>
   \<and> value_and_grad ex_externals ex_logdensity (position ex_state)
        = (0, Node ListNode [Leaf [0], Leaf [0, 0]])
   \<and> ex_logdensity (Node ListNode [Leaf [1 / 50], Leaf [1 / 50, 1 / 50]]) = - (3 / 5000)"
  using kernel_logdensity_is_pre_transition[OF kernel_ex] kernel_ex
  by (simp add: ex_position_def ex_logdensity_def power2_eq_square)

text \<open>
  C6. The state \<open>init\<close> returns has \<open>count = 0\<close>, and the state a kernel invocation emits
  has the input state's \<open>count\<close> plus 1, which is not less; in both,
  \<open>(noise_contraction, noise_sigma)\<close> is the schedule at the state's \<open>count\<close>.
\<close>

theorem schedule_and_count:
  "count (init P logdensity_fn schedule pos key0) = 0
   \<and> (noise_contraction (init P logdensity_fn schedule pos key0),
      noise_sigma (init P logdensity_fn schedule pos key0))
       = schedule (count (init P logdensity_fn schedule pos key0))
   \<and> (kernel P rng_key state logdensity_fn n_steps schedule = Some state' \<longrightarrow>
        count state' = count state + 1 \<and> count state \<le> count state'
      \<and> (noise_contraction state', noise_sigma state') = schedule (count state'))"
  by (auto simp: init_def kernel_def Let_def split: prod.splits list.splits bind_splits)

theorem schedule_and_count_witness:
  "kernel ex_externals 7 ex_state ex_logdensity 2 ex_schedule =
     Some \<lparr>position = Node ListNode [Leaf [1 / 50], Leaf [1 / 50, 1 / 50]], logdensity = 0,
           logdensity_grad = Node ListNode [Leaf [0], Leaf [0, 0]],
           noise_contraction = 1 / 2, noise_sigma = 1 / 2, count = 1\<rparr>
   \<and> count ex_state = 0 \<and> ex_schedule 0 = (1 / 2, 1) \<and> ex_schedule 1 = (1 / 2, 1 / 2)
   \<and> (noise_contraction ex_state, noise_sigma ex_state) = ex_schedule (count ex_state)"
  using schedule_and_count[of ex_externals ex_logdensity ex_schedule ex_position None 7 ex_state 2]
    kernel_ex
  by (simp add: ex_position_def ex_schedule_def ex_state_eq)

text \<open>
  C9. Whatever the target log-density, the number of steps and the schedule, the position
  a kernel invocation emits is the result of \<open>denoise\<close> run with \<open>mala\<close> over the tethered
  density \<open>conditional_logprob\<close> and the step size \<open>1/100\<close>.
\<close>

theorem kernel_inner_sampler_fixed:
  assumes "kernel P rng_key state logdensity_fn n_steps schedule = Some state'"
  shows "\<exists>key_noiser key_init key_denoiser noised_position pos.
           split P rng_key 3 = [key_noiser, key_init, key_denoiser]
         \<and> noiser P key_noiser state = Some noised_position
         \<and> init_denoising P key_init noised_position state logdensity_fn = Some pos
         \<and> denoise P key_denoiser pos
              (mala P (conditional_logprob logdensity_fn (noise_contraction state)
                         (noise_sigma state) noised_position) (1 / 100)) n_steps
             = Some (position state')"
  using assms
  by (auto simp: kernel_def Let_def split: prod.splits list.splits bind_splits)

theorem kernel_inner_sampler_fixed_witness:
  "kernel ex_externals 7 ex_state ex_logdensity 2 ex_schedule =
     Some \<lparr>position = Node ListNode [Leaf [1 / 50], Leaf [1 / 50, 1 / 50]], logdensity = 0,
           logdensity_grad = Node ListNode [Leaf [0], Leaf [0, 0]],
           noise_contraction = 1 / 2, noise_sigma = 1 / 2, count = 1\<rparr>
   \<and> denoise ex_externals 72 (Node ListNode [Leaf [0], Leaf [0, 0]])
        (mala ex_externals
           (conditional_logprob ex_logdensity (1 / 2) 1 (Node ListNode [Leaf [1], Leaf [1, 1]]))
           (1 / 100)) 2
       = Some (Node ListNode [Leaf [1 / 50], Leaf [1 / 50, 1 / 50]])"
  using kernel_inner_sampler_fixed[OF kernel_ex] kernel_ex
  by (simp add: ex_split noiser_ex init_denoising_ex ex_state_fields) (simp add: ex_position_def)

text \<open>
  The kernel uses \<open>mala\<close> at the step size \<open>1/100\<close> only: a collaborator that differs
  from it at other step sizes gives the same kernel.
\<close>

lemma kernel_mala_step_size:
  assumes "\<And>f. m f (1 / 100) = mala P f (1 / 100)"
  shows "kernel (P\<lparr>mala := m\<rparr>) rng_key state logdensity_fn n_steps schedule
           = kernel P rng_key state logdensity_fn n_steps schedule"
proof -
  have 1: "noiser (P\<lparr>mala := m\<rparr>) = noiser P"
    by (intro ext) (simp add: noiser_def)
  have 2: "init_denoising (P\<lparr>mala := m\<rparr>) = init_denoising P"
    by (intro ext) (simp add: init_denoising_def proposal_position_def)
  have 3: "denoise (P\<lparr>mala := m\<rparr>) = denoise P"
    by (intro ext) (simp add: denoise_def)
  show ?thesis
    by (simp add: kernel_def 1 2 3 assms cong: list.case_cong prod.case_cong)
qed

subsection \<open>\<open>step\<close>\<close>

lemma step_never_pair:
  "step P logdensity_fn n_steps schedule rng_key state
     \<noteq> Some (PyTuple [gibbs_tuple state', PyNone])"
  by (auto simp: step_def gibbs_tuple_def)

text \<open>
  C3. The claim: \<open>step\<close> returns the pair of the new \<open>GibbsState\<close> and \<open>None\<close>. The code
  returns what \<open>kernel\<close> returns, the \<open>GibbsState\<close> alone: in the concrete run the tuple
  of its six fields, and on no input a pair of a state and \<open>None\<close>.
\<close>

theorem step_returns_state_alone:
  "step ex_externals ex_logdensity 2 ex_schedule 7 ex_state =
     Some (PyTuple [PyTree (Node ListNode [Leaf [1 / 50], Leaf [1 / 50, 1 / 50]]), PyFloat 0,
                    PyTree (Node ListNode [Leaf [0], Leaf [0, 0]]),
                    PyFloat (1 / 2), PyFloat (1 / 2), PyInt 1])
   \<and> step P logdensity_fn n_steps schedule rng_key state
        \<noteq> Some (PyTuple [gibbs_tuple state', PyNone])"
  by (simp add: step_never_pair) (simp add: step_def kernel_ex gibbs_tuple_def ex_position_def)

subsection \<open>Keys\<close>

text \<open>
  \<open>init_denoising\<close> consults both the noise generator and the Bernoulli draw at its one
  key and nowhere else.
\<close>

lemma init_denoising_one_key:
  assumes "generate_gaussian_noise P' rng_key = generate_gaussian_noise P rng_key"
    and "bernoulli P' rng_key = bernoulli P rng_key"
    and "float_max P' = float_max P"
  shows "init_denoising P' rng_key noised_position state logdensity_fn
           = init_denoising P rng_key noised_position state logdensity_fn"
  by (simp add: init_denoising_def proposal_position_def assms)

lemma init_denoising_key_uses_not_distinct:
  "\<not> distinct (map snd (init_denoising_key_uses rng_key))"
  by (simp add: init_denoising_key_uses_def)

text \<open>
  C4. The claim: every key goes to exactly one random operation; in particular the key of
  the Gaussian proposal noise in \<open>init_denoising\<close> is not the key of its Bernoulli draw.
  The code gives \<open>init_denoising\<close>'s one key to both: in the concrete run key 71 draws
  the noise and the accept/reject decision. (In \<open>denoise\<close>, key 72 goes to the sampler's
  \<open>init\<close> and to \<open>split\<close>, and the steps get the keys split from it.)
\<close>

theorem init_denoising_reuses_key:
  "kernel_key_uses ex_externals 7 2 =
     [(Split, 7), (Gaussian_noise, 70), (Gaussian_noise, 71), (Bernoulli, 71),
      (Sampler_init, 72), (Split, 72), (Sampler_step, 720), (Sampler_step, 721)]
   \<and> init_denoising_key_uses (71 :: nat) = [(Gaussian_noise, 71), (Bernoulli, 71)]
   \<and> \<not> distinct (map snd (init_denoising_key_uses (71 :: nat)))"
  by (simp add: kernel_key_uses_def ex_externals_def upt_0_3 upt_0_2 noiser_key_uses_def
        init_denoising_key_uses_def denoise_key_uses_def)

end
